theory Spec2Isabelle
  imports Main "HOL-Library.Multiset"
begin

section \<open>Python strings\<close>

text \<open>
  A Python \<open>str\<close> is a sequence of code points. The model covers the code points
  below 256: a \<open>char\<close> is read as the code point of that number (the Latin-1 block),
  so \<open>length\<close> counts code points as Python's \<open>len\<close> does. The classification of
  these code points by \<open>str.isdigit\<close>, \<open>str.isalpha\<close> and \<open>str.isnumeric\<close> is the one
  of the Unicode character database that Python uses.
\<close>

definition code_point :: "char \<Rightarrow> nat" where
  "code_point c = of_char c"

definition ascii_digit :: "char \<Rightarrow> bool" where
  "ascii_digit c = (48 \<le> code_point c \<and> code_point c \<le> 57)"

definition ascii_letter :: "char \<Rightarrow> bool" where
  "ascii_letter c =
     ((65 \<le> code_point c \<and> code_point c \<le> 90) \<or> (97 \<le> code_point c \<and> code_point c \<le> 122))"

definition py_isdigit_char :: "char \<Rightarrow> bool" where
  \<comment> \<open>decimal digits and the superscripts two, three, one\<close>
  "py_isdigit_char c =
     (ascii_digit c \<or> code_point c = 178 \<or> code_point c = 179 \<or> code_point c = 185)"

definition py_isnumeric_char :: "char \<Rightarrow> bool" where
  \<comment> \<open>also the vulgar fractions one quarter, one half, three quarters\<close>
  "py_isnumeric_char c = (py_isdigit_char c \<or> (188 \<le> code_point c \<and> code_point c \<le> 190))"

definition py_isalpha_char :: "char \<Rightarrow> bool" where
  \<comment> \<open>general category L: the ASCII letters, the ordinal indicators, micro, and the
      accented letters (all of 192..255 but the multiplication and division signs)\<close>
  "py_isalpha_char c =
     (ascii_letter c \<or> code_point c = 170 \<or> code_point c = 181 \<or> code_point c = 186 \<or>
      (192 \<le> code_point c \<and> code_point c \<le> 214) \<or>
      (216 \<le> code_point c \<and> code_point c \<le> 246) \<or>
      (248 \<le> code_point c \<and> code_point c \<le> 255))"

definition py_isalnum_char :: "char \<Rightarrow> bool" where
  "py_isalnum_char c = (py_isalpha_char c \<or> py_isdigit_char c \<or> py_isnumeric_char c)"

definition py_isdigit :: "string \<Rightarrow> bool" where
  \<comment> \<open>\<open>str.isdigit\<close>: at least one character, and all of them digits\<close>
  "py_isdigit s = (s \<noteq> [] \<and> list_all py_isdigit_char s)"

definition py_isalnum :: "string \<Rightarrow> bool" where
  \<comment> \<open>\<open>str.isalnum\<close>: at least one character, and all of them alphanumeric\<close>
  "py_isalnum s = (s \<noteq> [] \<and> list_all py_isalnum_char s)"

definition py_replace_char :: "char \<Rightarrow> char \<Rightarrow> string \<Rightarrow> string" where
  \<comment> \<open>\<open>s.replace(a, b)\<close> for one-character \<open>a\<close> and \<open>b\<close>\<close>
  "py_replace_char a b s = map (\<lambda>c. if c = a then b else c) s"

definition py_lower_char :: "char \<Rightarrow> char" where
  "py_lower_char c =
     (if (65 \<le> code_point c \<and> code_point c \<le> 90) \<or>
         (192 \<le> code_point c \<and> code_point c \<le> 214) \<or>
         (216 \<le> code_point c \<and> code_point c \<le> 222)
      then char_of (code_point c + 32) else c)"

definition py_lower :: "string \<Rightarrow> string" where
  "py_lower s = map py_lower_char s"

definition py_suffix :: "nat \<Rightarrow> string \<Rightarrow> string" where
  \<comment> \<open>the slice \<open>s[-n:]\<close>: the last \<open>n\<close> characters, all of \<open>s\<close> when it is shorter\<close>
  "py_suffix n s = drop (length s - n) s"

definition quoted :: "string \<Rightarrow> string" where
  \<comment> \<open>\<open>"'{}'".format(s)\<close>\<close>
  "quoted s = [CHR 0x27] @ s @ [CHR 0x27]"

section \<open>Errors\<close>

text \<open>
  Exceptions the libraries raise and the program does not catch keep their Python class.
  Each \<open>raise\<close> of the program is one constructor of \<open>error\<close>, carrying its message.
\<close>

datatype py_exn =
    FileNotFoundError | IndexError | ValueError | AttributeError | OperationalError
  | DatabaseError | OtherError

datatype error =
    NotFound string
  | InvalidIdentifier string
  | UnsupportedFormat string
  | InvalidArgumentCombination string
  | EmptyQuery string
  | QueryError string
  | Uncaught py_exn

section \<open>The identifier validator\<close>

definition check_sqlite_entity_syntax :: "string \<Rightarrow> string \<Rightarrow> error option" where
  "check_sqlite_entity_syntax entity kind =
     (if py_isdigit entity
      then Some (InvalidIdentifier (''Invalid '' @ py_lower kind @ '' '' @ entity @ ''.'' @ '' '' @
                   kind @ '' name cannot lead with a digit''))
      else let entity_check = py_replace_char (CHR ''_'') (CHR ''A'') entity
           in if \<not> py_isalnum entity_check
              then Some (InvalidIdentifier (''Invalid '' @ py_lower kind @ '' '' @ entity @ ''.'' @
                           '' '' @ kind @ '' must contain only numbers and letters.''))
              else None)"

definition is_invalid_identifier :: "error option \<Rightarrow> bool" where
  "is_invalid_identifier r = (case r of Some (InvalidIdentifier _) \<Rightarrow> True | _ \<Rightarrow> False)"

definition ident_char :: "char \<Rightarrow> bool" where
  \<comment> \<open>the class \<open>[A-Za-z0-9_]\<close>\<close>
  "ident_char c = (ascii_letter c \<or> ascii_digit c \<or> c = CHR ''_'')"

definition matches_identifier :: "string \<Rightarrow> bool" where
  \<comment> \<open>the pattern \<open>[A-Za-z_][A-Za-z0-9_]*\<close>\<close>
  "matches_identifier s =
     (case s of [] \<Rightarrow> False
      | c # cs \<Rightarrow> (ascii_letter c \<or> c = CHR ''_'') \<and> list_all ident_char cs)"

section \<open>Tables, databases and the file system\<close>

text \<open>
  A data frame is its column labels and its rows. A database file is the list of its
  tables. The storage directory \<open>Databases\<close> is \<open>None\<close> while it does not exist, and
  else the list of its files by name; \<open>os.path.join(db_folder, db_file)\<close> is the
  entry \<open>db_file\<close> of that list. The directory holds files only: names that reach
  other directories (through a path separator) have no entry in it. Every other path
  the user names (query files, files to import, exported spreadsheets) is a key of
  \<open>files\<close>; tabular files hold their parsed content. \<open>stdout\<close> collects the printed
  lines.
\<close>

datatype cell = CNull | CInt int | CStr string

record dataframe =
  columns :: "string list"
  rows :: "cell list list"

type_synonym database = "(string \<times> dataframe) list"

text \<open>
  A table as it is read from a file. The label of a column is what pandas makes of the
  header cell: a string for a text cell, a number for a numeric cell of a workbook.
\<close>

datatype label = Name string | Number int

record sheet =
  header :: "label list"
  body :: "cell list list"

text \<open>
  \<open>XlsxFile\<close> is a workbook whose header cells are all text, as \<open>to_excel\<close> writes
  it; \<open>XlsxTyped\<close> is a workbook whose header cells may be numbers.
\<close>

datatype file_content =
    TextFile "string list"
  | CsvFile dataframe
  | XlsxFile "(string \<times> dataframe) list"
  | XlsxTyped "(string \<times> sheet) list"

record world =
  storage :: "(string \<times> database) list option"
  files :: "string \<rightharpoonup> file_content"
  stdout :: "string list"

text \<open>
  What the libraries decide and the program does not: the result of a SQL statement on a
  database (a data frame or an exception, and the database the statement leaves),
  whether a spreadsheet can be written at a path, and whether the rows of a data frame
  can be inserted into a table (a value that SQLite cannot store makes the insert fail).
\<close>

record env =
  read_sql_query :: "string \<Rightarrow> database \<Rightarrow> (py_exn + dataframe) \<times> database"
  to_excel_error :: "string \<Rightarrow> py_exn option"
  to_sql_insert_error :: "dataframe \<Rightarrow> py_exn option"

type_synonym operation = "world \<Rightarrow> error option \<times> world"

definition py_print :: "string list \<Rightarrow> world \<Rightarrow> world" where
  \<comment> \<open>\<open>print(a, b, ...)\<close>: the arguments separated by one space\<close>
  "py_print xs w =
     w\<lparr>stdout := stdout w @ [case xs of [] \<Rightarrow> [] | y # ys \<Rightarrow> y @ concat (map (\<lambda>z. '' '' @ z) ys)]\<rparr>"

definition os_path_join :: "string \<Rightarrow> string \<Rightarrow> string" where
  \<comment> \<open>\<open>posixpath.join\<close> of two components\<close>
  "os_path_join a b =
     (if b \<noteq> [] \<and> hd b = CHR ''/'' then b
      else if a = [] \<or> last a = CHR ''/'' then a @ b
      else a @ ''/'' @ b)"

definition sqlite3_connect :: "string \<Rightarrow> world \<Rightarrow> (py_exn + unit) \<times> world" where
  \<comment> \<open>\<open>sqlite3.connect\<close> opens the file read-write and creates it: an absent file of an
      existing directory comes to exist, empty; in an absent directory the file cannot be
      opened and nothing is created. A name with a path separator is read as a file of
      a subdirectory, and the storage directory has none\<close>
  "sqlite3_connect db_file w =
     (case storage w of
        None \<Rightarrow> (Inl OperationalError, w)
      | Some fs \<Rightarrow>
          (if CHR ''/'' \<in> set db_file then (Inl OperationalError, w)
           else case map_of fs db_file of
                  Some _ \<Rightarrow> (Inr (), w)
                | None \<Rightarrow> (Inr (), w\<lparr>storage := Some (fs @ [(db_file, [])])\<rparr>)))"

definition db_of :: "world \<Rightarrow> string \<Rightarrow> database option" where
  "db_of w db_file = (case storage w of None \<Rightarrow> None | Some fs \<Rightarrow> map_of fs db_file)"

definition set_db :: "string \<Rightarrow> database \<Rightarrow> world \<Rightarrow> world" where
  "set_db db_file db w =
     (case storage w of None \<Rightarrow> w
      | Some fs \<Rightarrow> w\<lparr>storage := Some (map (\<lambda>(n, d). if n = db_file then (n, db) else (n, d)) fs)\<rparr>)"

section \<open>Database lifecycle\<close>


definition not_found_delete :: "string \<Rightarrow> error" where
  "not_found_delete db_name =
     NotFound (''There is no database with the name '' @ db_name @
       ''. Did you specify the correct name of the Database you want to delete?'')"

definition delete_db_path :: "string \<Rightarrow> operation" where
  \<comment> \<open>\<open>os.remove\<close> raises FileNotFoundError when the file, or its directory, is absent\<close>
  "delete_db_path db_name w =
     (let db_file = db_name @ ''.db''
      in case storage w of
           None \<Rightarrow> (Some (not_found_delete db_name), w)
         | Some fs \<Rightarrow>
             (case map_of fs db_file of
                None \<Rightarrow> (Some (not_found_delete db_name), w)
              | Some _ \<Rightarrow>
                  (None, py_print [''Successfully deleted SQLite Database '', quoted db_file]
                           (w\<lparr>storage := Some (filter (\<lambda>p. fst p \<noteq> db_file) fs)\<rparr>))))"





section \<open>Import\<close>

definition sheet_of :: "dataframe \<Rightarrow> sheet" where
  "sheet_of df = \<lparr>header = map Name (columns df), body = rows df\<rparr>"

definition read_csv :: "string \<Rightarrow> world \<Rightarrow> py_exn + sheet" where
  \<comment> \<open>the labels of a csv file are strings\<close>
  "read_csv data_path w =
     (case files w data_path of
        None \<Rightarrow> Inl FileNotFoundError
      | Some (CsvFile df) \<Rightarrow> Inr (sheet_of df)
      | Some _ \<Rightarrow> Inl OtherError)"

definition read_excel :: "string \<Rightarrow> string option \<Rightarrow> world \<Rightarrow> py_exn + sheet" where
  \<comment> \<open>without \<open>sheet_name\<close> the first sheet is read; a sheet name that the workbook does
      not have is a ValueError\<close>
  "read_excel data_path sheet_name w =
     (case files w data_path of
        None \<Rightarrow> Inl FileNotFoundError
      | Some (XlsxFile sheets) \<Rightarrow>
          (case sheet_name of
             None \<Rightarrow> (case sheets of [] \<Rightarrow> Inl OtherError | (_, df) # _ \<Rightarrow> Inr (sheet_of df))
           | Some n \<Rightarrow>
               (case map_of sheets n of None \<Rightarrow> Inl ValueError | Some df \<Rightarrow> Inr (sheet_of df)))
      | Some (XlsxTyped sheets) \<Rightarrow>
          (case sheet_name of
             None \<Rightarrow> (case sheets of [] \<Rightarrow> Inl OtherError | (_, sh) # _ \<Rightarrow> Inr sh)
           | Some n \<Rightarrow> (case map_of sheets n of None \<Rightarrow> Inl ValueError | Some sh \<Rightarrow> Inr sh))
      | Some _ \<Rightarrow> Inl OtherError)"

fun check_column :: "label \<Rightarrow> error option" where
  \<comment> \<open>\<open>check_sqlite_entity_syntax(col, "Column")\<close>: a label that is a number has no
      method \<open>isdigit\<close>, and the call raises AttributeError\<close>
  "check_column (Name col) = check_sqlite_entity_syntax col ''Column''"
| "check_column (Number n) = Some (Uncaught AttributeError)"

fun check_columns :: "label list \<Rightarrow> error option" where
  \<comment> \<open>the loop over \<open>data.columns\<close>: the first violation is raised\<close>
  "check_columns [] = None"
| "check_columns (col # cols) =
     (case check_column col of
        Some e \<Rightarrow> Some e
      | None \<Rightarrow> check_columns cols)"

fun str_nat :: "nat \<Rightarrow> string" where
  "str_nat n =
     (if n < 10 then [char_of (48 + n)] else str_nat (n div 10) @ [char_of (48 + n mod 10)])"

definition py_str_int :: "int \<Rightarrow> string" where
  \<comment> \<open>\<open>str(n)\<close>\<close>
  "py_str_int n = (if n < 0 then ''-'' @ str_nat (nat (- n)) else str_nat (nat n))"

fun label_text :: "label \<Rightarrow> string" where
  "label_text (Name s) = s"
| "label_text (Number n) = py_str_int n"

definition frame_of :: "sheet \<Rightarrow> dataframe" where
  \<comment> \<open>the column names that \<open>to_sql\<close> gives the table: the labels as strings\<close>
  "frame_of sh = \<lparr>columns = map label_text (header sh), rows = body sh\<rparr>"

definition with_index :: "dataframe \<Rightarrow> dataframe" where
  \<comment> \<open>\<open>to_sql\<close> writes the row numbers as a first column, labelled \<open>index\<close> unless the
      frame has a column of that name\<close>
  "with_index df =
     \<lparr>columns = (if ''index'' \<in> set (columns df) then ''level_0'' else ''index'') # columns df,
      rows = map (\<lambda>(i, r). CInt (int i) # r) (zip [0 ..< length (rows df)] (rows df))\<rparr>"

definition sqlite_fold :: "string \<Rightarrow> string" where
  \<comment> \<open>SQLite compares the names of tables without regard to the case of ASCII letters\<close>
  "sqlite_fold s =
     map (\<lambda>c. if 65 \<le> code_point c \<and> code_point c \<le> 90 then char_of (code_point c + 32) else c) s"

definition to_sql :: "env \<Rightarrow> string \<Rightarrow> dataframe \<Rightarrow> database \<Rightarrow> py_exn option \<times> database" where
  \<comment> \<open>\<open>if_exists='fail'\<close>: a ValueError when pandas finds a table of that very name. Else
      the table is created, which SQLite refuses when a table of the same name up to case
      exists, and then the rows are inserted: when the insert fails the created table
      stays, empty\<close>
  "to_sql ev name df db =
     (if name \<in> set (map fst db) then (Some ValueError, db)
      else if sqlite_fold name \<in> set (map (\<lambda>p. sqlite_fold (fst p)) db)
      then (Some OperationalError, db)
      else case to_sql_insert_error ev df of
             Some e \<Rightarrow> (Some e, db @ [(name, (with_index df)\<lparr>rows := []\<rparr>)])
           | None \<Rightarrow> (None, db @ [(name, with_index df)]))"

definition read_data :: "string list \<Rightarrow> world \<Rightarrow> error + sheet" where
  \<comment> \<open>the \<open>if\<close>/\<open>elif\<close>/\<open>else\<close> on the file extension that reads the data frame; the test
      of the csv branch is on \<open>import_file_args[2]\<close>, a string, which is true when it
      is not empty\<close>
  "read_data import_file_args w =
     (let data_path = import_file_args ! 1
      in if py_suffix 3 data_path = ''csv''
         then (if import_file_args ! 2 \<noteq> []
               then Inl (InvalidArgumentCombination
                           ''Cannot pass in a sheet name with a CSV file'')
               else map_sum Uncaught id (read_csv data_path w))
         else if py_suffix 4 data_path = ''xlsx''
         then (if length import_file_args = 4
               then map_sum Uncaught id (read_excel data_path (Some (import_file_args ! 3)) w)
               else map_sum Uncaught id (read_excel data_path None w))
         else Inl (UnsupportedFormat
                     ''Unsuported File extension. Supported formats are .xlsx and .csv''))"

definition import_file_to_db :: "env \<Rightarrow> string list \<Rightarrow> operation" where
  "import_file_to_db ev import_file_args w =
     (if length import_file_args < 3 then (Some (Uncaught IndexError), w)
      else
        let db_name = import_file_args ! 0;
            table_name = import_file_args ! 2
        in case check_sqlite_entity_syntax table_name ''Table'' of
             Some e \<Rightarrow> (Some e, w)
           | None \<Rightarrow>
               (case read_data import_file_args w of
                  Inl e \<Rightarrow> (Some e, w)
                | Inr data \<Rightarrow>
                    (case check_columns (header data) of
                       Some e \<Rightarrow> (Some e, w)
                     | None \<Rightarrow>
                         (let db_file = db_name @ ''.db''
                          in case storage w of
                               None \<Rightarrow> (Some (Uncaught FileNotFoundError), w)
                             | Some fs \<Rightarrow>
                                 (if db_file \<in> set (map fst fs)
                                  then (case sqlite3_connect db_file w of
                                          (Inl e, w1) \<Rightarrow> (Some (Uncaught e), w1)
                                        | (Inr _, w1) \<Rightarrow>
                                            (case db_of w1 db_file of
                                               None \<Rightarrow> (Some (Uncaught OperationalError), w1)
                                             | Some db \<Rightarrow>
                                                 (case to_sql ev (import_file_args ! 2)
                                                         (frame_of data) db of
                                                    (Some e, db') \<Rightarrow>
                                                      (Some (Uncaught e), set_db db_file db' w1)
                                                  | (None, db') \<Rightarrow>
                                                      (None,
                                                       py_print [''Successfully imported file '',
                                                                 quoted (import_file_args ! 1),
                                                                 ''to'', quoted db_file]
                                                         (set_db db_file db' w1)))))
                                  else (Some (NotFound
                                          (''There is no database with the name '' @ db_name @
                                           ''. Did you create the database before importing the file?'')),
                                        w))))))"

section \<open>Query execution\<close>

definition get_query :: "string \<Rightarrow> world \<Rightarrow> error + string" where
  \<comment> \<open>\<open>open\<close> raises FileNotFoundError for an absent file; a file that is not text is
      outside the model\<close>
  "get_query user_query w =
     (if py_suffix 4 user_query = ''.txt''
      then (case files w user_query of
              None \<Rightarrow> Inl (Uncaught FileNotFoundError)
            | Some (TextFile all_lines) \<Rightarrow>
                (if length all_lines = 0
                 then Inl (EmptyQuery ''The given file holding the query is empty.'')
                 else Inr (concat all_lines))
            | Some _ \<Rightarrow> Inl (Uncaught OtherError))
      else Inr user_query)"

definition drop_column :: "string \<Rightarrow> dataframe \<Rightarrow> dataframe" where
  \<comment> \<open>\<open>result.drop(label, axis = 1)\<close>: every column of that label goes, with its cells\<close>
  "drop_column label df =
     \<lparr>columns = filter (\<lambda>c. c \<noteq> label) (columns df),
      rows = map (\<lambda>r. map snd (filter (\<lambda>(c, v). c \<noteq> label) (zip (columns df) r))) (rows df)\<rparr>"

definition to_excel :: "env \<Rightarrow> dataframe \<Rightarrow> string \<Rightarrow> bool \<Rightarrow> world \<Rightarrow> py_exn option \<times> world" where
  \<comment> \<open>\<open>result.to_excel(path, index = b)\<close>: one sheet \<open>Sheet1\<close>; with \<open>index = True\<close> the
      row numbers are written as a first column with an empty header\<close>
  "to_excel ev df path index w =
     (case to_excel_error ev path of
        Some e \<Rightarrow> (Some e, w)
      | None \<Rightarrow>
          (let sheet = (if index
                        then \<lparr>columns = [] # columns df,
                              rows = map (\<lambda>(i, r). CInt (int i) # r)
                                       (zip [0 ..< length (rows df)] (rows df))\<rparr>
                        else df)
           in (None, w\<lparr>files := (files w)(path \<mapsto> XlsxFile [(''Sheet1'', sheet)])\<rparr>)))"

definition not_understood :: string where
  "not_understood =
     ''is not understood, so know data was deleted. Can supply fourth positional argument '' @
     [CHR 0x22] @ ''clear'' @ [CHR 0x22] @
     '' to --execute_query to delete the Database after running a query''"

definition execute_query :: "env \<Rightarrow> string list \<Rightarrow> operation" where
  "execute_query ev execute_query_args w =
     (if length execute_query_args < 1 then (Some (Uncaught IndexError), w)
      else case get_query (execute_query_args ! 0) w of
        Inl e \<Rightarrow> (Some e, w)
      | Inr query \<Rightarrow>
          (if length execute_query_args < 4 then (Some (Uncaught IndexError), w)
           else
             let output_dir = execute_query_args ! 1;
                 output_name = execute_query_args ! 2 @ ''.xlsx'';
                 db_name = execute_query_args ! 3;
                 db_file = db_name @ ''.db''
             in case sqlite3_connect db_file w of
                  (Inl e, w1) \<Rightarrow>
                    (if e = OperationalError
                     then (Some (NotFound (''There is no database with the name '' @ db_name @
                             ''. Did you create the database before running the query?'')), w1)
                     else (Some (Uncaught e), w1))
                | (Inr _, w1) \<Rightarrow>
                    (let output_path = os_path_join output_dir output_name;
                         db = (case db_of w1 db_file of None \<Rightarrow> [] | Some d \<Rightarrow> d)
                     in case read_sql_query ev query db of
                          (Inl e, db') \<Rightarrow>
                            (if e = DatabaseError
                             then (Some (QueryError
                                     (''There is an error in the query. Did you import the table from an excel file into '' @
                                      db_name @ ''?'')), set_db db_file db' w1)
                             else (Some (Uncaught e), set_db db_file db' w1))
                        | (Inr result, db') \<Rightarrow>
                            (let w2 = set_db db_file db' w1;
                                 result1 = (if ''index'' \<in> set (columns result)
                                            then drop_column ''index'' result else result)
                             in case to_excel ev result1 output_path False w2 of
                                  (Some e, w3) \<Rightarrow> (Some (Uncaught e), w3)
                                | (None, w3) \<Rightarrow>
                                    (let w4 = py_print [''Query ran succesfully. Output found at'',
                                                        output_path] w3
                                     in if length execute_query_args = 5
                                        then (if execute_query_args ! 4 = ''clear''
                                              then delete_db_path db_name w4
                                              else (None,
                                                    py_print [''The fifth argument'',
                                                              execute_query_args ! 4,
                                                              not_understood]
                                                      w4))
                                        else (None, w4))))))"

section \<open>The dispatcher\<close>


definition skip :: operation where
  "skip w = (None, w)"

definition seq :: "operation \<Rightarrow> operation \<Rightarrow> operation" where
  \<comment> \<open>one statement after another: an exception of the first ends the run\<close>
  "seq f g w = (case f w of (None, w1) \<Rightarrow> g w1 | (Some e, w1) \<Rightarrow> (Some e, w1))"







text \<open>
  The dispatcher as the specification words it: the requested operations, listed in the
  fixed order, run one after the other.
\<close>

datatype command =
    Build string
  | Delete string
  | Import "string list"
  | Query "string list"
  | Clear
  | ListDatabases
  | ListTables string






section \<open>Auxiliary notions for the statements\<close>

definition run_db :: "(string \<times> database) list \<Rightarrow> string \<Rightarrow> database" where
  \<comment> \<open>the database a connection to \<open>db_file\<close> works on: the file's content, or the empty
      database of a file the connection has just created\<close>
  "run_db fs db_file = (case map_of fs db_file of None \<Rightarrow> [] | Some d \<Rightarrow> d)"

definition sample_env :: env where
  \<comment> \<open>an engine that knows two statements, a file system where every path is writable,
      and data frames whose rows SQLite can store\<close>
  "sample_env =
     \<lparr>read_sql_query =
        (\<lambda>q db. if q = ''SELECT 1'' then (Inr \<lparr>columns = [''1''], rows = [[CInt 1]]\<rparr>, db)
                 else if q = ''SELECT * FROM orders''
                 then (case map_of db ''orders'' of
                         None \<Rightarrow> (Inl DatabaseError, db) | Some t \<Rightarrow> (Inr t, db))
                 else (Inl DatabaseError, db)),
      to_excel_error = (\<lambda>p. None),
      to_sql_insert_error = (\<lambda>df. None)\<rparr>"

definition sample_world :: world where
  \<comment> \<open>the storage directory holds \<open>sales.db\<close> with one imported table\<close>
  "sample_world =
     \<lparr>storage = Some [(''sales.db'',
                        [(''orders'', \<lparr>columns = [''index'', ''id''],
                                       rows = [[CInt 0, CInt 7], [CInt 1, CInt 9]]\<rparr>)])],
      files = Map.empty, stdout = []\<rparr>"

section \<open>Properties of the identifier validator\<close>

lemmas char_class_defs =
  code_point_def ascii_digit_def ascii_letter_def py_isdigit_char_def py_isnumeric_char_def
  py_isalpha_char_def py_isalnum_char_def

lemmas validator_defs =
  check_sqlite_entity_syntax_def py_isdigit_def py_isalnum_def py_replace_char_def

lemma alnum_A: "py_isalnum_char (CHR ''A'')"
  by (simp add: char_class_defs)

lemma ident_char_alnum: "ident_char c \<Longrightarrow> c \<noteq> CHR ''_'' \<Longrightarrow> py_isalnum_char c"
  by (auto simp: ident_char_def py_isalnum_char_def py_isalpha_char_def py_isdigit_char_def)

lemma ascii_letter_not_digit: "ascii_letter c \<Longrightarrow> \<not> py_isdigit_char c"
  by (auto simp: ascii_letter_def py_isdigit_char_def ascii_digit_def)

lemma underscore_not_digit: "\<not> py_isdigit_char (CHR ''_'')"
  by (simp add: char_class_defs)

lemma digits_invalid:
  "list_all ascii_digit s \<Longrightarrow> is_invalid_identifier (check_sqlite_entity_syntax s t)"
  by (cases s) (auto simp: validator_defs is_invalid_identifier_def py_isdigit_char_def list_all_iff)

lemma bad_char_invalid:
  "\<exists>c \<in> set s. \<not> py_isalnum_char c \<and> c \<noteq> CHR ''_'' \<Longrightarrow>
     is_invalid_identifier (check_sqlite_entity_syntax s t)"
  by (auto simp: validator_defs is_invalid_identifier_def list_all_iff Let_def)

lemma identifier_valid:
  "matches_identifier s \<Longrightarrow> check_sqlite_entity_syntax s t = None"
  by (cases s) (auto simp: matches_identifier_def validator_defs list_all_iff Let_def alnum_A
       ident_char_alnum ascii_letter_not_digit underscore_not_digit ident_char_def)

text \<open>
  C10. The empty string is not composed of digits (\<open>isdigit\<close> is false for it) and holds
  no character outside \<open>[A-Za-z0-9_]\<close>; the validator rejects it all the same, for every
  role, with the error of the second branch: "must contain only numbers and letters".
\<close>

theorem empty_identifier_rejected:
  "\<not> py_isdigit [] \<and> list_all ident_char [] \<and>
   check_sqlite_entity_syntax [] kind =
     Some (InvalidIdentifier (''Invalid '' @ py_lower kind @ '' '' @ [] @ ''.'' @ '' '' @ kind @
             '' must contain only numbers and letters.''))"
  by (simp add: validator_defs)

text \<open>
  C3, as stated, fails: the letter e with an acute accent (code point 233) lies outside
  \<open>[A-Za-z0-9_]\<close>, yet \<open>str.isalnum\<close> holds of it and the validator accepts the
  one-letter identifier.
\<close>

theorem accented_letter_accepted:
  "\<not> ident_char (CHR 0xE9) \<and> check_sqlite_entity_syntax [CHR 0xE9] ''Table'' = None"
  by (simp add: validator_defs ident_char_def char_class_defs)

text \<open>
  C3, amended. The validator fails with InvalidIdentifier for every identifier made of
  the digits 0 to 9 only, and for every identifier with a character that is neither
  alphanumeric in the sense of \<open>str.isalnum\<close> nor an underscore; it succeeds for every
  identifier that matches \<open>[A-Za-z_][A-Za-z0-9_]*\<close>.
\<close>

theorem validator_spec:
  "(list_all ascii_digit s1 \<longrightarrow> is_invalid_identifier (check_sqlite_entity_syntax s1 kind)) \<and>
   ((\<exists>c \<in> set s2. \<not> py_isalnum_char c \<and> c \<noteq> CHR ''_'') \<longrightarrow>
      is_invalid_identifier (check_sqlite_entity_syntax s2 kind)) \<and>
   (matches_identifier s3 \<longrightarrow> check_sqlite_entity_syntax s3 kind = None)"
  using digits_invalid bad_char_invalid identifier_valid by blast

theorem validator_spec_witness:
  "list_all ascii_digit ''2020'' \<and>
   is_invalid_identifier (check_sqlite_entity_syntax ''2020'' ''Table'') \<and>
   (\<exists>c \<in> set ''unit price''. \<not> py_isalnum_char c \<and> c \<noteq> CHR ''_'') \<and>
   is_invalid_identifier (check_sqlite_entity_syntax ''unit price'' ''Table'') \<and>
   matches_identifier ''unit_price2'' \<and>
   check_sqlite_entity_syntax ''unit_price2'' ''Table'' = None"
proof -
  have h1: "list_all ascii_digit ''2020''" by (simp add: char_class_defs)
  have h2: "\<exists>c \<in> set ''unit price''. \<not> py_isalnum_char c \<and> c \<noteq> CHR ''_''"
    by (simp add: char_class_defs)
  have h3: "matches_identifier ''unit_price2''"
    by (simp add: matches_identifier_def ident_char_def char_class_defs)
  show ?thesis
    using validator_spec [of "''2020''" "''Table''" "''unit price''" "''unit_price2''"] h1 h2 h3
    by blast
qed

section \<open>Properties of the database lifecycle\<close>

lemma map_of_filter_same: "map_of (filter (\<lambda>p. fst p \<noteq> k) fs) k = None"
  by (induction fs) auto


lemma db_of_print [simp]: "db_of (py_print xs w) f = db_of w f"
  by (simp add: db_of_def py_print_def)

lemma storage_print [simp]: "storage (py_print xs w) = storage w"
  by (simp add: py_print_def)

lemma files_print [simp]: "files (py_print xs w) = files w"
  by (simp add: py_print_def)



section \<open>Properties of the import\<close>

text \<open>
  C1. An import of a \<open>.csv\<close> file with three arguments, so without a sheet name, is
  rejected with the error "Cannot pass in a sheet name with a CSV file": the test of the
  source reads the third argument, the table name, where the sheet name would be the
  fourth. The file is never read.
\<close>

theorem csv_import_without_sheet_name:
  "import_file_to_db ev [''sales'', ''orders.csv'', ''orders''] w =
     (Some (InvalidArgumentCombination ''Cannot pass in a sheet name with a CSV file''), w)"
  by (simp add: import_file_to_db_def read_data_def validator_defs py_suffix_def char_class_defs)

section \<open>Properties of the query execution\<close>

lemma connect_absent_dir:
  "storage w = None \<Longrightarrow> sqlite3_connect f w = (Inl OperationalError, w)"
  by (simp add: sqlite3_connect_def)

lemma connect_bad_name:
  "CHR ''/'' \<in> set f \<Longrightarrow> sqlite3_connect f w = (Inl OperationalError, w)"
  by (simp add: sqlite3_connect_def split: option.splits)

lemma connect_present_dir:
  assumes "storage w = Some fs" and "CHR ''/'' \<notin> set f"
  shows "\<exists>w1. sqlite3_connect f w = (Inr (), w1) \<and> files w1 = files w \<and> stdout w1 = stdout w \<and>
           db_of w1 f = Some (run_db fs f) \<and>
           (\<forall>g. g \<noteq> f \<longrightarrow> db_of w1 g = db_of w g) \<and>
           (map_of fs f = None \<longrightarrow> storage w1 = Some (fs @ [(f, [])])) \<and>
           (map_of fs f \<noteq> None \<longrightarrow> w1 = w)"
  using assms by (cases "map_of fs f") (auto simp: sqlite3_connect_def db_of_def run_db_def map_add_def split: option.splits)

lemma map_of_set_same:
  "map_of fs f \<noteq> None \<Longrightarrow>
     map_of (map (\<lambda>(n, d). if n = f then (n, db) else (n, d)) fs) f = Some db"
  by (induction fs) (auto split: if_splits)

lemma map_of_set_other:
  "g \<noteq> f \<Longrightarrow> map_of (map (\<lambda>(n, d). if n = f then (n, db) else (n, d)) fs) g = map_of fs g"
  by (induction fs) auto

lemma db_of_set_db_same: "db_of w f \<noteq> None \<Longrightarrow> db_of (set_db f db w) f = Some db"
  by (auto simp: db_of_def set_db_def map_of_set_same split: option.splits)

lemma db_of_set_db_other: "g \<noteq> f \<Longrightarrow> db_of (set_db f db w) g = db_of w g"
  by (auto simp: db_of_def set_db_def map_of_set_other split: option.splits)

lemma files_set_db [simp]: "files (set_db f db w) = files w"
  by (simp add: set_db_def split: option.splits)

lemma stdout_set_db [simp]: "stdout (set_db f db w) = stdout w"
  by (simp add: set_db_def split: option.splits)

lemma delete_present:
  assumes "db_of w (n @ ''.db'') = Some d"
  shows "\<exists>w'. delete_db_path n w = (None, w') \<and> files w' = files w \<and>
           db_of w' (n @ ''.db'') = None"
proof -
  from assms obtain fs where fs: "storage w = Some fs" "map_of fs (n @ ''.db'') = Some d"
    by (auto simp: db_of_def split: option.splits)
  then show ?thesis
    by (simp add: delete_db_path_def Let_def db_of_def py_print_def map_of_filter_same)
qed


lemma execute_query_ok:
  assumes len: "4 \<le> length args"
    and q: "get_query (args ! 0) w = Inr q"
    and fs: "storage w = Some fs"
    and plain: "CHR ''/'' \<notin> set (args ! 3)"
    and sql: "read_sql_query ev q (run_db fs (args ! 3 @ ''.db'')) = (Inr result, db')"
    and wr: "to_excel_error ev (os_path_join (args ! 1) (args ! 2 @ ''.xlsx'')) = None"
  shows "\<exists>w4 df. files w4 = (files w)(os_path_join (args ! 1) (args ! 2 @ ''.xlsx'') \<mapsto>
                                   XlsxFile [(''Sheet1'', df)]) \<and>
           columns df = filter (\<lambda>c. c \<noteq> ''index'') (columns result) \<and>
           db_of w4 (args ! 3 @ ''.db'') = Some db' \<and>
           execute_query ev args w =
             (if length args = 5
              then (if args ! 4 = ''clear'' then delete_db_path (args ! 3) w4
                    else (None, py_print [''The fifth argument'', args ! 4, not_understood] w4))
              else (None, w4))"
proof -
  have plain': "CHR ''/'' \<notin> set (args ! 3 @ ''.db'')" using plain by simp
  from connect_present_dir [OF fs plain']
  obtain w1 where w1: "sqlite3_connect (args ! 3 @ ''.db'') w = (Inr (), w1)"
      "files w1 = files w" "db_of w1 (args ! 3 @ ''.db'') = Some (run_db fs (args ! 3 @ ''.db''))"
    by blast
  have ne: "args \<noteq> []" using len by auto
  define result1 where
    "result1 = (if ''index'' \<in> set (columns result) then drop_column ''index'' result else result)"
  define w4 where
    "w4 = py_print [''Query ran succesfully. Output found at'',
                    os_path_join (args ! 1) (args ! 2 @ ''.xlsx'')]
            ((set_db (args ! 3 @ ''.db'') db' w1)
               \<lparr>files := (files (set_db (args ! 3 @ ''.db'') db' w1))
                  (os_path_join (args ! 1) (args ! 2 @ ''.xlsx'') \<mapsto> XlsxFile [(''Sheet1'', result1)])\<rparr>)"
  have cols: "columns result1 = filter (\<lambda>c. c \<noteq> ''index'') (columns result)"
  proof (cases "''index'' \<in> set (columns result)")
    case True
    then show ?thesis by (simp add: result1_def drop_column_def)
  next
    case False
    then have "filter (\<lambda>c. c \<noteq> ''index'') (columns result) = columns result"
      by (intro filter_True) auto
    with False show ?thesis by (simp add: result1_def)
  qed
  have f4: "files w4 = (files w)(os_path_join (args ! 1) (args ! 2 @ ''.xlsx'') \<mapsto>
                                   XlsxFile [(''Sheet1'', result1)])"
    by (simp add: w4_def w1)
  have d4: "db_of w4 (args ! 3 @ ''.db'') = Some db'"
    using db_of_set_db_same [of w1 "args ! 3 @ ''.db''" db'] w1
    by (simp add: w4_def db_of_def)
  have run: "execute_query ev args w =
             (if length args = 5
              then (if args ! 4 = ''clear'' then delete_db_path (args ! 3) w4
                    else (None, py_print [''The fifth argument'', args ! 4, not_understood] w4))
              else (None, w4))"
    using len q sql wr w1 ne
    by (simp add: execute_query_def Let_def to_excel_def w4_def result1_def)
  show ?thesis using cols f4 d4 run by blast
qed

lemma execute_query_failure_files:
  "fst (execute_query ev args w) \<noteq> None \<Longrightarrow> files (snd (execute_query ev args w)) = files w"
proof (cases "4 \<le> length args \<and> (\<exists>q. get_query (args ! 0) w = Inr q) \<and> storage w \<noteq> None \<and>
              CHR ''/'' \<notin> set (args ! 3)")
  case False
  then show ?thesis
    by (auto simp: execute_query_def Let_def connect_absent_dir connect_bad_name split: sum.splits)
next
  case True
  then obtain q fs where len: "4 \<le> length args" and q: "get_query (args ! 0) w = Inr q"
    and fs: "storage w = Some fs" and plain: "CHR ''/'' \<notin> set (args ! 3)" by auto
  assume fail: "fst (execute_query ev args w) \<noteq> None"
  have plain': "CHR ''/'' \<notin> set (args ! 3 @ ''.db'')" using plain by simp
  from connect_present_dir [OF fs plain']
  obtain w1 where w1: "sqlite3_connect (args ! 3 @ ''.db'') w = (Inr (), w1)"
      "files w1 = files w" "db_of w1 (args ! 3 @ ''.db'') = Some (run_db fs (args ! 3 @ ''.db''))"
    by blast
  have ne: "args \<noteq> []" using len by auto
  obtain r db' where sql: "read_sql_query ev q (run_db fs (args ! 3 @ ''.db'')) = (r, db')"
    by (cases "read_sql_query ev q (run_db fs (args ! 3 @ ''.db''))")
  show ?thesis
  proof (cases r)
    case (Inl e)
    then show ?thesis using len q sql w1 ne
      by (simp add: execute_query_def Let_def)
  next
    case (Inr result)
    show ?thesis
    proof (cases "to_excel_error ev (os_path_join (args ! 1) (args ! 2 @ ''.xlsx''))")
      case (Some e)
      then show ?thesis using len q sql w1 ne Inr
        by (simp add: execute_query_def Let_def to_excel_def)
    next
      case None
      from execute_query_ok [OF len q fs plain sql [unfolded Inr] None]
      obtain w4 where ok: "db_of w4 (args ! 3 @ ''.db'') = Some db'"
        "execute_query ev args w =
             (if length args = 5
              then (if args ! 4 = ''clear'' then delete_db_path (args ! 3) w4
                    else (None, py_print [''The fifth argument'', args ! 4, not_understood] w4))
              else (None, w4))" by blast
      from delete_present [OF ok(1)] obtain w' where "delete_db_path (args ! 3) w4 = (None, w')"
        by blast
      with ok(2) have "fst (execute_query ev args w) = None" by simp
      with fail show ?thesis by simp
    qed
  qed
qed

lemma execute_query_success_inputs:
  assumes "fst (execute_query ev args w) = None"
  shows "4 \<le> length args \<and> CHR ''/'' \<notin> set (args ! 3) \<and>
         (\<exists>q fs result db'. get_query (args ! 0) w = Inr q \<and> storage w = Some fs \<and>
           read_sql_query ev q (run_db fs (args ! 3 @ ''.db'')) = (Inr result, db') \<and>
           to_excel_error ev (os_path_join (args ! 1) (args ! 2 @ ''.xlsx'')) = None)"
proof (cases "4 \<le> length args \<and> (\<exists>q. get_query (args ! 0) w = Inr q) \<and> storage w \<noteq> None \<and>
              CHR ''/'' \<notin> set (args ! 3)")
  case False
  then show ?thesis using assms
    by (auto simp: execute_query_def Let_def connect_absent_dir connect_bad_name
             split: sum.splits if_splits)
next
  case True
  then obtain q fs where len: "4 \<le> length args" and q: "get_query (args ! 0) w = Inr q"
    and fs: "storage w = Some fs" and plain: "CHR ''/'' \<notin> set (args ! 3)" by auto
  have plain': "CHR ''/'' \<notin> set (args ! 3 @ ''.db'')" using plain by simp
  from connect_present_dir [OF fs plain']
  obtain w1 where w1: "sqlite3_connect (args ! 3 @ ''.db'') w = (Inr (), w1)"
      "files w1 = files w" "db_of w1 (args ! 3 @ ''.db'') = Some (run_db fs (args ! 3 @ ''.db''))"
    by blast
  have ne: "args \<noteq> []" using len by auto
  obtain r db' where sql: "read_sql_query ev q (run_db fs (args ! 3 @ ''.db'')) = (r, db')"
    by (cases "read_sql_query ev q (run_db fs (args ! 3 @ ''.db''))")
  show ?thesis
  proof (cases r)
    case (Inl e)
    then show ?thesis using len q sql w1 ne assms
      by (simp add: execute_query_def Let_def split: if_splits)
  next
    case (Inr result)
    show ?thesis
    proof (cases "to_excel_error ev (os_path_join (args ! 1) (args ! 2 @ ''.xlsx''))")
      case (Some e)
      then show ?thesis using len q sql w1 ne Inr assms
        by (simp add: execute_query_def Let_def to_excel_def)
    next
      case None
      then show ?thesis using len q fs plain sql Inr by auto
    qed
  qed
qed


lemmas sample_defs =
  sample_env_def sample_world_def execute_query_def get_query_def py_suffix_def sqlite3_connect_def
  db_of_def set_db_def to_excel_def drop_column_def os_path_join_def py_print_def delete_db_path_def
  run_db_def not_found_delete_def

lemma sample_run:
  "execute_query sample_env [''SELECT * FROM orders'', ''/tmp'', ''result'', ''sales''] sample_world =
     (None, sample_world\<lparr>files := [''/tmp/result.xlsx'' \<mapsto> XlsxFile [(''Sheet1'', \<lparr>columns = [''id''], rows = [[CInt 7], [CInt 9]]\<rparr>)]],
        stdout := [''Query ran succesfully. Output found at /tmp/result.xlsx'']\<rparr>)"
  by (simp add: sample_defs Let_def)

text \<open>
  C7. A run of \<open>execute_query\<close> that fails writes no file. A run that succeeds writes
  exactly the spreadsheet \<open>output_dir/output_name.xlsx\<close>, with one sheet whose columns
  are those of the query result less every column named \<open>index\<close>: none of its columns is
  named \<open>index\<close>, and no column of row numbers is added.
\<close>

theorem exported_sheet_has_no_index_column:
  "(fst (execute_query ev args w) \<noteq> None \<longrightarrow> files (snd (execute_query ev args w)) = files w) \<and>
   (fst (execute_query ev args w) = None \<longrightarrow>
      (\<exists>q fs result db' df.
         get_query (args ! 0) w = Inr q \<and> storage w = Some fs \<and>
         read_sql_query ev q (run_db fs (args ! 3 @ ''.db'')) = (Inr result, db') \<and>
         files (snd (execute_query ev args w)) =
           (files w)(os_path_join (args ! 1) (args ! 2 @ ''.xlsx'') \<mapsto> XlsxFile [(''Sheet1'', df)]) \<and>
         columns df = filter (\<lambda>c. c \<noteq> ''index'') (columns result) \<and>
         ''index'' \<notin> set (columns df)))"
proof (intro conjI impI)
  assume "fst (execute_query ev args w) \<noteq> None"
  then show "files (snd (execute_query ev args w)) = files w"
    by (rule execute_query_failure_files)
next
  assume ok: "fst (execute_query ev args w) = None"
  from execute_query_success_inputs [OF ok]
  obtain q fs result db' where len: "4 \<le> length args" and q: "get_query (args ! 0) w = Inr q"
    and fs: "storage w = Some fs" and plain: "CHR ''/'' \<notin> set (args ! 3)"
    and sql: "read_sql_query ev q (run_db fs (args ! 3 @ ''.db'')) = (Inr result, db')"
    and wr: "to_excel_error ev (os_path_join (args ! 1) (args ! 2 @ ''.xlsx'')) = None"
    by blast
  from execute_query_ok [OF len q fs plain sql wr]
  obtain w4 df where w4: "files w4 = (files w)(os_path_join (args ! 1) (args ! 2 @ ''.xlsx'') \<mapsto>
                                   XlsxFile [(''Sheet1'', df)])"
     "columns df = filter (\<lambda>c. c \<noteq> ''index'') (columns result)"
     "db_of w4 (args ! 3 @ ''.db'') = Some db'"
     "execute_query ev args w =
             (if length args = 5
              then (if args ! 4 = ''clear'' then delete_db_path (args ! 3) w4
                    else (None, py_print [''The fifth argument'', args ! 4, not_understood] w4))
              else (None, w4))" by blast
  from delete_present [OF w4(3)] obtain w' where
    del: "delete_db_path (args ! 3) w4 = (None, w')" "files w' = files w4" by blast
  have "files (snd (execute_query ev args w)) = files w4"
    using w4(4) del by simp
  moreover have "''index'' \<notin> set (columns df)" using w4(2) by simp
  ultimately show "\<exists>q fs result db' df.
         get_query (args ! 0) w = Inr q \<and> storage w = Some fs \<and>
         read_sql_query ev q (run_db fs (args ! 3 @ ''.db'')) = (Inr result, db') \<and>
         files (snd (execute_query ev args w)) =
           (files w)(os_path_join (args ! 1) (args ! 2 @ ''.xlsx'') \<mapsto> XlsxFile [(''Sheet1'', df)]) \<and>
         columns df = filter (\<lambda>c. c \<noteq> ''index'') (columns result) \<and>
         ''index'' \<notin> set (columns df)"
    using q fs sql w4(1,2) by metis
qed

theorem exported_sheet_has_no_index_column_witness:
  "fst (execute_query sample_env [''SELECT * FROM orders'', ''/tmp'', ''result'', ''sales'']
          sample_world) = None \<and>
   (\<exists>q fs result db' df.
      get_query ([''SELECT * FROM orders'', ''/tmp'', ''result'', ''sales''] ! 0) sample_world = Inr q \<and>
      storage sample_world = Some fs \<and>
      read_sql_query sample_env q
        (run_db fs ([''SELECT * FROM orders'', ''/tmp'', ''result'', ''sales''] ! 3 @ ''.db'')) =
        (Inr result, db') \<and>
      files (snd (execute_query sample_env [''SELECT * FROM orders'', ''/tmp'', ''result'', ''sales'']
                    sample_world)) =
        (files sample_world)
          (os_path_join ([''SELECT * FROM orders'', ''/tmp'', ''result'', ''sales''] ! 1)
             ([''SELECT * FROM orders'', ''/tmp'', ''result'', ''sales''] ! 2 @ ''.xlsx'') \<mapsto>
           XlsxFile [(''Sheet1'', df)]) \<and>
      columns df = filter (\<lambda>c. c \<noteq> ''index'') (columns result) \<and>
      ''index'' \<notin> set (columns df))"
proof -
  have ok: "fst (execute_query sample_env [''SELECT * FROM orders'', ''/tmp'', ''result'', ''sales'']
          sample_world) = None"
    by (simp add: sample_run)
  show ?thesis
    using exported_sheet_has_no_index_column
            [of sample_env "[''SELECT * FROM orders'', ''/tmp'', ''result'', ''sales'']" sample_world] ok
    by blast
qed




text \<open>
  C2. The storage directory exists and holds no \<open>nodb.db\<close>. Running a query against
  \<open>nodb\<close> raises nothing: the connection creates \<open>nodb.db\<close>, the statement runs on the
  empty database, and the spreadsheet is written.
\<close>

theorem execute_query_absent_database:
  "db_of \<lparr>storage = Some [], files = Map.empty, stdout = []\<rparr> ''nodb.db'' = None \<and>
   execute_query sample_env [''SELECT 1'', ''/tmp'', ''out'', ''nodb'']
     \<lparr>storage = Some [], files = Map.empty, stdout = []\<rparr> =
   (None,
    \<lparr>storage = Some [(''nodb.db'', [])],
     files = [''/tmp/out.xlsx'' \<mapsto> XlsxFile [(''Sheet1'', \<lparr>columns = [''1''], rows = [[CInt 1]]\<rparr>)]],
     stdout = [''Query ran succesfully. Output found at /tmp/out.xlsx'']\<rparr>)"
  by (simp add: sample_defs Let_def)




section \<open>Validation before writing\<close>

lemma check_error_kind:
  "check_sqlite_entity_syntax s k = Some e \<Longrightarrow> \<exists>m. e = InvalidIdentifier m"
  by (auto simp: check_sqlite_entity_syntax_def Let_def split: if_splits)

lemma check_column_error_kind:
  "check_column l = Some e \<Longrightarrow> (\<exists>m. e = InvalidIdentifier m) \<or> e = Uncaught AttributeError"
  by (cases l) (auto dest: check_error_kind)

lemma check_columns_error_kind:
  "check_columns ls = Some e \<Longrightarrow> (\<exists>m. e = InvalidIdentifier m) \<or> e = Uncaught AttributeError"
  by (induction ls) (auto split: option.splits dest: check_column_error_kind)

lemma check_columns_invalid:
  "\<exists>l \<in> set ls. check_column l \<noteq> None \<Longrightarrow> check_columns ls \<noteq> None"
  by (induction ls) (auto split: option.splits)

lemma import_validation_error_unchanged:
  assumes run: "import_file_to_db ev args w = (Some e, w')"
    and kind: "(\<exists>m. e = InvalidIdentifier m) \<or> (\<exists>m. e = UnsupportedFormat m)"
  shows "w' = w"
proof (cases "length args < 3")
  case True
  then show ?thesis using run by (simp add: import_file_to_db_def)
next
  case len: False
  show ?thesis
  proof (cases "check_sqlite_entity_syntax (args ! 2) ''Table''")
    case (Some e)
    then show ?thesis using len run by (simp add: import_file_to_db_def Let_def)
  next
    case tab: None
    show ?thesis
    proof (cases "read_data args w")
      case (Inl e)
      then show ?thesis using len tab run by (simp add: import_file_to_db_def Let_def)
    next
      case rd: (Inr data)
      show ?thesis
      proof (cases "check_columns (header data)")
        case (Some e)
        then show ?thesis using len tab rd run by (simp add: import_file_to_db_def Let_def)
      next
        case cols: None
        show ?thesis
        proof (cases "storage w")
          case None
          then show ?thesis using len tab rd cols run kind
            by (auto simp: import_file_to_db_def Let_def)
        next
          case st: (Some fs)
          show ?thesis
          proof (cases "args ! 0 @ ''.db'' \<in> set (map fst fs)")
            case False
            then show ?thesis using len tab rd cols st run kind
              by (auto simp: import_file_to_db_def Let_def)
          next
            case True
            obtain c w1 where conn: "sqlite3_connect (args ! 0 @ ''.db'') w = (c, w1)"
              by (cases "sqlite3_connect (args ! 0 @ ''.db'') w")
            show ?thesis
            proof (cases c)
              case (Inl x)
              then show ?thesis using len tab rd cols st True conn run kind
                by (auto simp: import_file_to_db_def Let_def)
            next
              case (Inr u)
              show ?thesis
              proof (cases "db_of w1 (args ! 0 @ ''.db'')")
                case None
                then show ?thesis using len tab rd cols st True conn Inr run kind
                  by (auto simp: import_file_to_db_def Let_def)
              next
                case db: (Some db)
                obtain r db' where ts: "to_sql ev (args ! 2) (frame_of data) db = (r, db')"
                  by (cases "to_sql ev (args ! 2) (frame_of data) db")
                show ?thesis
                proof (cases r)
                  case None
                  then show ?thesis using len tab rd cols st True conn Inr db ts run
                    by (simp add: import_file_to_db_def Let_def)
                next
                  case (Some x)
                  then show ?thesis using len tab rd cols st True conn Inr db ts run kind
                    by (auto simp: import_file_to_db_def Let_def)
                qed
              qed
            qed
          qed
        qed
      qed
    qed
  qed
qed

text \<open>
  C8. For an import with its three arguments: an invalid table name ends it with an
  InvalidIdentifier error, an extension that is neither \<open>csv\<close> nor \<open>xlsx\<close> with an
  UnsupportedFormat error, and a label among the columns read that is not a valid
  identifier with an error of the validator (InvalidIdentifier for a string, the
  AttributeError of \<open>isdigit\<close> for a number), each time in the state the call started
  from. And whenever an import ends with an InvalidIdentifier or an UnsupportedFormat
  error the state, and so every database file, is as it was: the validation is over
  before the connection is opened and \<open>to_sql\<close> writes.
\<close>

theorem import_validation_before_write:
  assumes len: "3 \<le> length args"
  shows "(check_sqlite_entity_syntax (args ! 2) ''Table'' \<noteq> None \<longrightarrow>
            (\<exists>m. import_file_to_db ev args w = (Some (InvalidIdentifier m), w))) \<and>
         (check_sqlite_entity_syntax (args ! 2) ''Table'' = None \<and>
          py_suffix 3 (args ! 1) \<noteq> ''csv'' \<and> py_suffix 4 (args ! 1) \<noteq> ''xlsx'' \<longrightarrow>
            (\<exists>m. import_file_to_db ev args w = (Some (UnsupportedFormat m), w))) \<and>
         (check_sqlite_entity_syntax (args ! 2) ''Table'' = None \<and> read_data args w = Inr data \<and>
          (\<exists>l \<in> set (header data). check_column l \<noteq> None) \<longrightarrow>
            (\<exists>e. import_file_to_db ev args w = (Some e, w) \<and>
                 ((\<exists>m. e = InvalidIdentifier m) \<or> e = Uncaught AttributeError))) \<and>
         (\<forall>e w'. import_file_to_db ev args w = (Some e, w') \<and>
                  ((\<exists>m. e = InvalidIdentifier m) \<or> (\<exists>m. e = UnsupportedFormat m)) \<longrightarrow> w' = w)"
proof (intro conjI impI allI)
  assume "check_sqlite_entity_syntax (args ! 2) ''Table'' \<noteq> None"
  then obtain e where e: "check_sqlite_entity_syntax (args ! 2) ''Table'' = Some e" by auto
  with check_error_kind obtain m where "e = InvalidIdentifier m" by blast
  with e len show "\<exists>m. import_file_to_db ev args w = (Some (InvalidIdentifier m), w)"
    by (simp add: import_file_to_db_def Let_def)
next
  assume "check_sqlite_entity_syntax (args ! 2) ''Table'' = None \<and>
          py_suffix 3 (args ! 1) \<noteq> ''csv'' \<and> py_suffix 4 (args ! 1) \<noteq> ''xlsx''"
  with len show "\<exists>m. import_file_to_db ev args w = (Some (UnsupportedFormat m), w)"
    by (simp add: import_file_to_db_def read_data_def Let_def)
next
  assume a: "check_sqlite_entity_syntax (args ! 2) ''Table'' = None \<and> read_data args w = Inr data \<and>
          (\<exists>l \<in> set (header data). check_column l \<noteq> None)"
  then obtain e where e: "check_columns (header data) = Some e"
    using check_columns_invalid [of "header data"] by auto
  from check_columns_error_kind [OF e]
  have k: "(\<exists>m. e = InvalidIdentifier m) \<or> e = Uncaught AttributeError" .
  have "import_file_to_db ev args w = (Some e, w)"
    using e a len by (simp add: import_file_to_db_def Let_def)
  with k show "\<exists>e. import_file_to_db ev args w = (Some e, w) \<and>
                 ((\<exists>m. e = InvalidIdentifier m) \<or> e = Uncaught AttributeError)"
    by blast
next
  fix e w'
  assume "import_file_to_db ev args w = (Some e, w') \<and>
            ((\<exists>m. e = InvalidIdentifier m) \<or> (\<exists>m. e = UnsupportedFormat m))"
  then show "w' = w" using import_validation_error_unchanged by blast
qed

theorem import_validation_before_write_witness:
  "(\<exists>m. import_file_to_db sample_env [''sales'', ''orders.xlsx'', ''my orders''] sample_world =
          (Some (InvalidIdentifier m), sample_world)) \<and>
   (\<exists>m. import_file_to_db sample_env [''sales'', ''orders.txt'', ''orders''] sample_world =
          (Some (UnsupportedFormat m), sample_world)) \<and>
   (\<exists>e. import_file_to_db sample_env [''sales'', ''orders.xlsx'', ''orders'']
          (sample_world\<lparr>files := [''orders.xlsx'' \<mapsto>
             XlsxTyped [(''2020'', \<lparr>header = [Name ''id'', Name ''unit price'', Number 2020],
                                    body = []\<rparr>)]]\<rparr>) =
          (Some e,
           sample_world\<lparr>files := [''orders.xlsx'' \<mapsto>
             XlsxTyped [(''2020'', \<lparr>header = [Name ''id'', Name ''unit price'', Number 2020],
                                    body = []\<rparr>)]]\<rparr>) \<and>
        ((\<exists>m. e = InvalidIdentifier m) \<or> e = Uncaught AttributeError))"
proof -
  have t1: "check_sqlite_entity_syntax ([''sales'', ''orders.xlsx'', ''my orders''] ! 2) ''Table'' \<noteq> None"
    by (simp add: validator_defs char_class_defs)
  have t2: "check_sqlite_entity_syntax ([''sales'', ''orders.txt'', ''orders''] ! 2) ''Table'' = None \<and>
          py_suffix 3 ([''sales'', ''orders.txt'', ''orders''] ! 1) \<noteq> ''csv'' \<and>
          py_suffix 4 ([''sales'', ''orders.txt'', ''orders''] ! 1) \<noteq> ''xlsx''"
    by (simp add: validator_defs char_class_defs py_suffix_def)
  have t3: "check_sqlite_entity_syntax ([''sales'', ''orders.xlsx'', ''orders''] ! 2) ''Table'' = None \<and>
      read_data [''sales'', ''orders.xlsx'', ''orders'']
        (sample_world\<lparr>files := [''orders.xlsx'' \<mapsto>
             XlsxTyped [(''2020'', \<lparr>header = [Name ''id'', Name ''unit price'', Number 2020],
                                    body = []\<rparr>)]]\<rparr>) =
        Inr \<lparr>header = [Name ''id'', Name ''unit price'', Number 2020], body = []\<rparr> \<and>
      (\<exists>l \<in> set (header \<lparr>header = [Name ''id'', Name ''unit price'', Number 2020], body = []\<rparr>).
          check_column l \<noteq> None)"
    by (simp add: validator_defs char_class_defs py_suffix_def read_data_def read_excel_def)
  have a: "\<exists>m. import_file_to_db sample_env [''sales'', ''orders.xlsx'', ''my orders''] sample_world =
          (Some (InvalidIdentifier m), sample_world)"
    using import_validation_before_write
            [where args = "[''sales'', ''orders.xlsx'', ''my orders'']" and w = sample_world
               and ev = sample_env] t1
    by fastforce
  have b: "\<exists>m. import_file_to_db sample_env [''sales'', ''orders.txt'', ''orders''] sample_world =
          (Some (UnsupportedFormat m), sample_world)"
    using import_validation_before_write
            [where args = "[''sales'', ''orders.txt'', ''orders'']" and w = sample_world
               and ev = sample_env] t2
    by fastforce
  have c: "\<exists>e. import_file_to_db sample_env [''sales'', ''orders.xlsx'', ''orders'']
          (sample_world\<lparr>files := [''orders.xlsx'' \<mapsto>
             XlsxTyped [(''2020'', \<lparr>header = [Name ''id'', Name ''unit price'', Number 2020],
                                    body = []\<rparr>)]]\<rparr>) =
          (Some e,
           sample_world\<lparr>files := [''orders.xlsx'' \<mapsto>
             XlsxTyped [(''2020'', \<lparr>header = [Name ''id'', Name ''unit price'', Number 2020],
                                    body = []\<rparr>)]]\<rparr>) \<and>
        ((\<exists>m. e = InvalidIdentifier m) \<or> e = Uncaught AttributeError)"
  proof -
    have l: "3 \<le> length [''sales'', ''orders.xlsx'', ''orders'']" by simp
    from import_validation_before_write
            [OF l, where w = "sample_world\<lparr>files := [''orders.xlsx'' \<mapsto>
                   XlsxTyped [(''2020'', \<lparr>header = [Name ''id'', Name ''unit price'', Number 2020],
                                          body = []\<rparr>)]]\<rparr>"
                and data = "\<lparr>header = [Name ''id'', Name ''unit price'', Number 2020], body = []\<rparr>"
                and ev = sample_env] t3
    show ?thesis by blast
  qed
  show ?thesis using a b c by blast
qed

section \<open>Properties of the dispatcher\<close>

lemma seq_skip_left [simp]: "seq skip g = g"
  by (rule ext) (simp add: seq_def skip_def)

lemma seq_skip_right [simp]: "seq f skip = f"
  by (rule ext) (simp add: seq_def skip_def split: prod.splits option.splits)








end
